theory Spec2Isabelle
  imports Complex_Main "HOL-Library.Multiset"
begin

section \<open>JavaScript values carried by a request body\<close>

text \<open>
  The handlers of \<^verbatim>\<open>routes/jobTracker.js\<close> destructure \<^verbatim>\<open>req.body\<close>, a parsed JSON
  document, so every field is an arbitrary JSON value or \<^verbatim>\<open>undefined\<close> when the key is
  absent. Numbers are the finite values a JSON number parses to.
\<close>

datatype jsval =
    JUndefined
  | JNull
  | JBool bool
  | JNum real
  | JStr string
  | JArr "jsval list"
  | JObj "(string \<times> jsval) list"

text \<open>ToBoolean: what \<^verbatim>\<open>if (v)\<close>, \<^verbatim>\<open>!v\<close>, \<^verbatim>\<open>v || w\<close> and \<^verbatim>\<open>v && w\<close> test.\<close>

fun truthy :: "jsval \<Rightarrow> bool" where
  "truthy JUndefined = False"
| "truthy JNull = False"
| "truthy (JBool b) = b"
| "truthy (JNum n) = (n \<noteq> 0)"
| "truthy (JStr s) = (s \<noteq> [])"
| "truthy (JArr xs) = True"
| "truthy (JObj kvs) = True"

text \<open>\<^verbatim>\<open>a || b\<close>: the left operand when it is truthy, the right one otherwise.\<close>

definition js_or :: "jsval \<Rightarrow> jsval \<Rightarrow> jsval" where
  "js_or a b = (if truthy a then a else b)"

text \<open>
  \<^verbatim>\<open>a === b\<close> between a value held by the store and a value of the incoming request.
  Primitives compare by value. Arrays and objects compare by identity, and the body of
  every request is parsed afresh, so an array or object of the request is never identical
  to one that an earlier request left in the store.
\<close>

fun strict_eq :: "jsval \<Rightarrow> jsval \<Rightarrow> bool" where
  "strict_eq JUndefined JUndefined = True"
| "strict_eq JNull JNull = True"
| "strict_eq (JBool a) (JBool b) = (a = b)"
| "strict_eq (JNum a) (JNum b) = (a = b)"
| "strict_eq (JStr a) (JStr b) = (a = b)"
| "strict_eq _ _ = False"

text \<open>\<^verbatim>\<open>xs.includes(v)\<close> on an array of string literals.\<close>

fun array_includes :: "string list \<Rightarrow> jsval \<Rightarrow> bool" where
  "array_includes [] v = False"
| "array_includes (x # xs) v = (if strict_eq (JStr x) v then True else array_includes xs v)"

section \<open>The tracked-job record and the store\<close>

text \<open>
  A timestamp is the string \<^verbatim>\<open>new Date().toISOString()\<close>. It has millisecond precision and
  \<^verbatim>\<open>new Date(s)\<close> reads it back to the same instant, so it is represented by that instant,
  in milliseconds since the epoch.
\<close>

type_synonym timestamp = int

record job_note =
  note_text :: jsval
  note_createdAt :: timestamp

record tracked_job =
  userId :: string
  jobId :: jsval
  title :: jsval
  company :: jsval
  location :: jsval
  jobType :: jsval
  salary :: jsval
  applyLink :: jsval
  description :: jsval
  status :: jsval
  job_notes :: "job_note list"
  createdAt :: timestamp
  updatedAt :: timestamp

text \<open>
  \<^verbatim>\<open>jobTrackerStore\<close> is a JavaScript \<^verbatim>\<open>Map\<close> from tracker id to job: it iterates in
  insertion order, \<^verbatim>\<open>set\<close> on a present key replaces the value where it stands, and
  \<^verbatim>\<open>set\<close> on a new key appends.
\<close>

type_synonym store = "(string \<times> tracked_job) list"

fun store_get :: "store \<Rightarrow> string \<Rightarrow> tracked_job option" where
  "store_get [] k = None"
| "store_get ((i, job) # rest) k = (if i = k then Some job else store_get rest k)"

fun store_set :: "store \<Rightarrow> string \<Rightarrow> tracked_job \<Rightarrow> store" where
  "store_set [] k v = [(k, v)]"
| "store_set ((i, job) # rest) k v =
     (if i = k then (k, v) # rest else (i, job) # store_set rest k v)"

fun store_delete :: "store \<Rightarrow> string \<Rightarrow> store" where
  "store_delete [] k = []"
| "store_delete ((i, job) # rest) k =
     (if i = k then store_delete rest k else (i, job) # store_delete rest k)"

section \<open>Errors and responses\<close>

text \<open>\<^verbatim>\<open>throw new ApiError(code, message)\<close>.\<close>

datatype api_error = ApiError nat string

text \<open>
  The JSON documents the handlers send: the HTTP status, then the fields next to
  \<^verbatim>\<open>success: true\<close>. The object \<^verbatim>\<open>{ id, ...job }\<close> is the pair of the id and the job.
\<close>

datatype response =
    ListResponse nat (trackedJobs: "(string \<times> tracked_job) list") nat
  | JobResponse nat string "string \<times> tracked_job"
  | AckResponse nat string

section \<open>GET /\<close>

text \<open>The loop that pushes the caller's jobs onto \<^verbatim>\<open>userJobs\<close>, in the order of the map.\<close>

fun user_jobs :: "store \<Rightarrow> string \<Rightarrow> (string \<times> tracked_job) list" where
  "user_jobs [] uid = []"
| "user_jobs ((i, job) # rest) uid =
     (if userId job = uid then (i, job) # user_jobs rest uid else user_jobs rest uid)"

text \<open>
  \<^verbatim>\<open>Array.prototype.sort(cmp)\<close> is stable and puts \<^verbatim>\<open>a\<close> before \<^verbatim>\<open>b\<close> when
  \<^verbatim>\<open>cmp(a, b) < 0\<close>. For a consistent comparator that fixes the result, which is the one
  a stable insertion sort computes.
\<close>

fun insert_by :: "('a \<Rightarrow> 'a \<Rightarrow> int) \<Rightarrow> 'a \<Rightarrow> 'a list \<Rightarrow> 'a list" where
  "insert_by cmp x [] = [x]"
| "insert_by cmp x (y # ys) =
     (if cmp x y \<le> 0 then x # y # ys else y # insert_by cmp x ys)"

definition js_sort :: "('a \<Rightarrow> 'a \<Rightarrow> int) \<Rightarrow> 'a list \<Rightarrow> 'a list" where
  "js_sort cmp xs = foldr (insert_by cmp) xs []"

text \<open>\<^verbatim>\<open>(a, b) => new Date(b.createdAt) - new Date(a.createdAt)\<close>\<close>

definition newest_first :: "string \<times> tracked_job \<Rightarrow> string \<times> tracked_job \<Rightarrow> int" where
  "newest_first a b = createdAt (snd b) - createdAt (snd a)"

definition router_get :: "store \<Rightarrow> string \<Rightarrow> response \<times> store" where
  "router_get s uid =
     (let userJobs = js_sort newest_first (user_jobs s uid)
      in (ListResponse 200 userJobs (length userJobs), s))"

section \<open>POST /\<close>

record post_body =
  post_jobId :: jsval
  post_title :: jsval
  post_company :: jsval
  post_location :: jsval
  post_jobType :: jsval
  post_salary :: jsval
  post_applyLink :: jsval
  post_description :: jsval
  post_status :: jsval

text \<open>The scan that throws \<^verbatim>\<open>Job already tracked\<close>.\<close>

fun already_tracked :: "store \<Rightarrow> string \<Rightarrow> jsval \<Rightarrow> bool" where
  "already_tracked [] uid jid = False"
| "already_tracked ((i, job) # rest) uid jid =
     (if userId job = uid \<and> strict_eq (jobId job) jid then True
      else already_tracked rest uid jid)"

text \<open>
  The object literal \<^verbatim>\<open>trackedJob\<close>. The destructuring default \<^verbatim>\<open>status = 'saved'\<close>
  applies to \<^verbatim>\<open>undefined\<close> only.
\<close>

definition new_tracked_job :: "string \<Rightarrow> post_body \<Rightarrow> string \<Rightarrow> timestamp \<Rightarrow> tracked_job" where
  "new_tracked_job uid body trackerId now =
     \<lparr> userId = uid,
       jobId = js_or (post_jobId body) (JStr trackerId),
       title = post_title body,
       company = post_company body,
       location = js_or (post_location body) (JStr ''Remote''),
       jobType = js_or (post_jobType body) (JStr ''Full-time''),
       salary = js_or (post_salary body) JNull,
       applyLink = js_or (post_applyLink body) JNull,
       description = js_or (post_description body) JNull,
       status = (if post_status body = JUndefined then JStr ''saved'' else post_status body),
       job_notes = [],
       createdAt = now,
       updatedAt = now \<rparr>"

text \<open>
  \<^verbatim>\<open>trackerId\<close> is what \<^verbatim>\<open>uuidv4()\<close> returns and \<^verbatim>\<open>now\<close> what the clock reads; both are
  taken after the two checks.
\<close>

definition router_post ::
  "store \<Rightarrow> string \<Rightarrow> post_body \<Rightarrow> string \<Rightarrow> timestamp \<Rightarrow> (api_error + response) \<times> store" where
  "router_post s uid body trackerId now =
     (if \<not> truthy (post_title body) \<or> \<not> truthy (post_company body)
      then (Inl (ApiError 400 ''Job title and company are required''), s)
      else if already_tracked s uid (post_jobId body)
      then (Inl (ApiError 400 ''Job already tracked''), s)
      else let trackedJob = new_tracked_job uid body trackerId now
           in (Inr (JobResponse 201 ''Job tracked successfully'' (trackerId, trackedJob)),
               store_set s trackerId trackedJob))"

section \<open>PUT /:trackerId\<close>

record put_body =
  put_status :: jsval
  put_notes :: jsval

definition validStatuses :: "string list" where
  "validStatuses = [''saved'', ''applied'', ''interviewing'', ''offered'', ''rejected'']"

text \<open>
  The three assignments to \<^verbatim>\<open>job\<close>. \<^verbatim>\<open>job.notes || []\<close> is \<^verbatim>\<open>job.notes\<close>: it is always
  an array, and an array is truthy.
\<close>

definition apply_update :: "tracked_job \<Rightarrow> put_body \<Rightarrow> timestamp \<Rightarrow> tracked_job" where
  "apply_update job body now =
     (let job1 = (if truthy (put_status body) then job\<lparr>status := put_status body\<rparr> else job);
          job2 = (if truthy (put_notes body)
                  then job1\<lparr>job_notes := job_notes job1 @
                         [\<lparr>note_text = put_notes body, note_createdAt = now\<rparr>]\<rparr>
                  else job1)
      in job2\<lparr>updatedAt := now\<rparr>)"

definition router_put ::
  "store \<Rightarrow> string \<Rightarrow> string \<Rightarrow> put_body \<Rightarrow> timestamp \<Rightarrow> (api_error + response) \<times> store" where
  "router_put s trackerId uid body now =
     (case store_get s trackerId of
        None \<Rightarrow> (Inl (ApiError 404 ''Tracked job not found''), s)
      | Some job \<Rightarrow>
          if userId job \<noteq> uid then (Inl (ApiError 403 ''Access denied''), s)
          else if truthy (put_status body) \<and> \<not> array_includes validStatuses (put_status body)
          then (Inl (ApiError 400 ''Invalid status''), s)
          else let job' = apply_update job body now
               in (Inr (JobResponse 200 ''Job updated successfully'' (trackerId, job')),
                   store_set s trackerId job'))"

section \<open>DELETE /:trackerId\<close>

definition router_delete :: "store \<Rightarrow> string \<Rightarrow> string \<Rightarrow> (api_error + response) \<times> store" where
  "router_delete s trackerId uid =
     (case store_get s trackerId of
        None \<Rightarrow> (Inl (ApiError 404 ''Tracked job not found''), s)
      | Some job \<Rightarrow>
          if userId job \<noteq> uid then (Inl (ApiError 403 ''Access denied''), s)
          else (Inr (AckResponse 200 ''Job removed from tracker''), store_delete s trackerId))"

section \<open>Sequences of requests\<close>

text \<open>
  A mutating request, with what the environment supplies to it: the authenticated user,
  the body, and for a creation the identifier and the clock reading.
\<close>

datatype request =
    Create string post_body string timestamp
  | Update string string put_body timestamp
  | Delete string string

fun step :: "store \<Rightarrow> request \<Rightarrow> store" where
  "step s (Create uid body trackerId now) = snd (router_post s uid body trackerId now)"
| "step s (Update trackerId uid body now) = snd (router_put s trackerId uid body now)"
| "step s (Delete trackerId uid) = snd (router_delete s trackerId uid)"

text \<open>
  What is assumed of \<^verbatim>\<open>uuidv4()\<close>: the identifier it would return to a creation is a
  non-empty string that is neither a key of the store nor the \<^verbatim>\<open>jobId\<close> of a stored job.
\<close>

definition fresh_id :: "store \<Rightarrow> string \<Rightarrow> bool" where
  "fresh_id s trackerId =
     (trackerId \<noteq> [] \<and> store_get s trackerId = None \<and>
      list_all (\<lambda>p. jobId (snd p) \<noteq> JStr trackerId) s)"

fun uuid_ok :: "store \<Rightarrow> request \<Rightarrow> bool" where
  "uuid_ok s (Create uid body trackerId now) = fresh_id s trackerId"
| "uuid_ok s (Update trackerId uid body now) = True"
| "uuid_ok s (Delete trackerId uid) = True"

fun run :: "store \<Rightarrow> request list \<Rightarrow> store" where
  "run s [] = s"
| "run s (r # rs) = run (step s r) rs"

fun trace_ok :: "store \<Rightarrow> request list \<Rightarrow> bool" where
  "trace_ok s [] = True"
| "trace_ok s (r # rs) = (uuid_ok s r \<and> trace_ok (step s r) rs)"

text \<open>A body with title and company only.\<close>

definition minimal_body :: "jsval \<Rightarrow> jsval \<Rightarrow> post_body" where
  "minimal_body t c =
     \<lparr> post_jobId = JUndefined, post_title = t, post_company = c,
       post_location = JUndefined, post_jobType = JUndefined, post_salary = JUndefined,
       post_applyLink = JUndefined, post_description = JUndefined,
       post_status = JUndefined \<rparr>"

section \<open>Predicates on stores\<close>

text \<open>The entries of the store that the duplicate scan of a creation matches.\<close>

definition tracked_as :: "store \<Rightarrow> string \<Rightarrow> jsval \<Rightarrow> store" where
  "tracked_as s uid jid =
     filter (\<lambda>p. userId (snd p) = uid \<and> strict_eq (jobId (snd p)) jid) s"

definition jobIds_truthy :: "store \<Rightarrow> bool" where
  "jobIds_truthy s = list_all (\<lambda>p. truthy (jobId (snd p))) s"

definition jobIds_unique :: "store \<Rightarrow> bool" where
  "jobIds_unique s = (\<forall>uid jid. length (tracked_as s uid jid) \<le> 1)"

definition statuses_valid :: "store \<Rightarrow> bool" where
  "statuses_valid s = list_all (\<lambda>p. array_includes validStatuses (status (snd p))) s"

section \<open>Facts about the building blocks\<close>

lemma strict_eq_eq: "strict_eq a b \<Longrightarrow> a = b"
  by (cases a; cases b) auto

lemma array_includes_iff: "array_includes xs v = (\<exists>x \<in> set xs. v = JStr x)"
  by (induction xs) (auto dest: strict_eq_eq)

lemma store_get_set:
  "store_get (store_set s k v) k' = (if k' = k then Some v else store_get s k')"
  by (induction s k v rule: store_set.induct) auto

lemma store_get_delete:
  "store_get (store_delete s k) k' = (if k' = k then None else store_get s k')"
  by (induction s k rule: store_delete.induct) auto

lemma store_delete_filter: "store_delete s k = filter (\<lambda>p. fst p \<noteq> k) s"
  by (induction s k rule: store_delete.induct) auto

lemma store_set_fresh: "store_get s k = None \<Longrightarrow> store_set s k v = s @ [(k, v)]"
  by (induction s k v rule: store_set.induct) (auto split: if_splits)

lemma store_get_None_iff: "store_get s k = None \<longleftrightarrow> k \<notin> fst ` set s"
  by (induction s k rule: store_get.induct) auto

lemma store_get_in_set: "store_get s k = Some job \<Longrightarrow> (k, job) \<in> set s"
  by (induction s k rule: store_get.induct) (auto split: if_splits)

lemma user_jobs_filter: "user_jobs s uid = filter (\<lambda>p. userId (snd p) = uid) s"
  by (induction s uid rule: user_jobs.induct) auto

lemma already_tracked_iff:
  "already_tracked s uid jid =
     list_ex (\<lambda>p. userId (snd p) = uid \<and> strict_eq (jobId (snd p)) jid) s"
  by (induction s uid jid rule: already_tracked.induct) auto

lemma mset_insert_by: "mset (insert_by cmp x xs) = add_mset x (mset xs)"
  by (induction xs) auto

lemma mset_js_sort: "mset (js_sort cmp xs) = mset xs"
  by (induction xs) (auto simp: js_sort_def mset_insert_by)

lemma set_insert_by: "set (insert_by cmp x xs) = insert x (set xs)"
  by (induction xs) auto

lemma sorted_insert_by_newest:
  "sorted_wrt (\<lambda>a b. createdAt (snd b) \<le> createdAt (snd a)) xs \<Longrightarrow>
   sorted_wrt (\<lambda>a b. createdAt (snd b) \<le> createdAt (snd a)) (insert_by newest_first x xs)"
  by (induction xs) (auto simp: newest_first_def set_insert_by)

lemma sorted_js_sort_newest:
  "sorted_wrt (\<lambda>a b. createdAt (snd b) \<le> createdAt (snd a)) (js_sort newest_first xs)"
proof (induction xs)
  case Nil
  show ?case by (simp add: js_sort_def)
next
  case (Cons x xs)
  have "js_sort newest_first (x # xs) = insert_by newest_first x (js_sort newest_first xs)"
    by (simp add: js_sort_def)
  with Cons show ?case by (simp add: sorted_insert_by_newest)
qed

lemma list_all_store_set: "list_all P s \<Longrightarrow> P (k, v) \<Longrightarrow> list_all P (store_set s k v)"
  by (induction s k v rule: store_set.induct) auto

lemma list_all_store_delete: "list_all P s \<Longrightarrow> list_all P (store_delete s k)"
  by (induction s k rule: store_delete.induct) auto

lemma length_filter_store_set:
  "store_get s k = Some job \<Longrightarrow> Q v = Q job \<Longrightarrow>
   length (filter (\<lambda>p. Q (snd p)) (store_set s k v)) = length (filter (\<lambda>p. Q (snd p)) s)"
  by (induction s k v rule: store_set.induct) (auto split: if_splits)

lemma length_filter_store_delete:
  "length (filter P (store_delete s k)) \<le> length (filter P s)"
  by (induction s k rule: store_delete.induct) auto

lemma apply_update_keeps:
  "userId (apply_update job body now) = userId job"
  "jobId (apply_update job body now) = jobId job"
  "createdAt (apply_update job body now) = createdAt job"
  by (simp_all add: apply_update_def Let_def)

lemma truthy_new_jobId: "tid \<noteq> [] \<Longrightarrow> truthy (jobId (new_tracked_job uid body tid now))"
  by (simp add: new_tracked_job_def js_or_def)

text \<open>The sort is stable: jobs created at the same instant keep the order of the map.\<close>

lemma filter_insert_by_newest:
  "filter (\<lambda>y. createdAt (snd y) = k) (insert_by newest_first x xs) =
     (if createdAt (snd x) = k then x # filter (\<lambda>y. createdAt (snd y) = k) xs
      else filter (\<lambda>y. createdAt (snd y) = k) xs)"
  by (induction xs) (auto simp: newest_first_def)

lemma js_sort_stable:
  "filter (\<lambda>y. createdAt (snd y) = k) (js_sort newest_first xs) =
   filter (\<lambda>y. createdAt (snd y) = k) xs"
  by (induction xs) (simp_all add: js_sort_def filter_insert_by_newest)

text \<open>The definitions that evaluating a handler on a concrete request unfolds.\<close>

lemmas eval_defs = fresh_id_def router_post_def router_put_def router_delete_def router_get_def
  minimal_body_def new_tracked_job_def apply_update_def validStatuses_def js_or_def
  tracked_as_def js_sort_def newest_first_def Let_def

section \<open>What every run of requests preserves\<close>

text \<open>Every stored \<^verbatim>\<open>jobId\<close> is truthy: it is a truthy value of the body or the tracker id.\<close>

lemma step_jobIds_truthy:
  assumes "jobIds_truthy s" and "uuid_ok s r"
  shows "jobIds_truthy (step s r)"
proof (cases r)
  case (Create uid body tid now)
  with assms show ?thesis
    by (auto simp: jobIds_truthy_def router_post_def Let_def fresh_id_def
          intro!: list_all_store_set truthy_new_jobId)
next
  case (Update tid uid body now)
  show ?thesis
  proof (cases "store_get s tid")
    case None
    with Update assms show ?thesis by (simp add: router_put_def)
  next
    case (Some job)
    from store_get_in_set [OF Some] assms(1) have "truthy (jobId job)"
      by (auto simp: jobIds_truthy_def list_all_iff)
    with Some Update assms show ?thesis
      by (auto simp: jobIds_truthy_def router_put_def Let_def apply_update_keeps
            intro!: list_all_store_set)
  qed
next
  case (Delete tid uid)
  with assms show ?thesis
    by (auto simp: jobIds_truthy_def router_delete_def intro: list_all_store_delete
          split: option.splits)
qed

lemma run_jobIds_truthy:
  "jobIds_truthy s \<Longrightarrow> trace_ok s rs \<Longrightarrow> jobIds_truthy (run s rs)"
  by (induction rs arbitrary: s) (auto intro: step_jobIds_truthy)

lemma falsy_not_tracked:
  "jobIds_truthy s \<Longrightarrow> \<not> truthy jid \<Longrightarrow> \<not> already_tracked s uid jid"
  by (induction s uid jid rule: already_tracked.induct)
     (auto simp: jobIds_truthy_def dest: strict_eq_eq)

text \<open>No user has two jobs whose \<^verbatim>\<open>jobId\<close>s are strictly equal.\<close>

lemma not_tracked_empty: "\<not> already_tracked s uid jid \<Longrightarrow> tracked_as s uid jid = []"
  by (auto simp: already_tracked_iff tracked_as_def list_ex_iff filter_empty_conv)

lemma tracked_length_pos: "already_tracked s uid jid \<Longrightarrow> 0 < length (tracked_as s uid jid)"
  by (auto simp: already_tracked_iff tracked_as_def list_ex_iff filter_empty_conv)

lemma fresh_not_tracked: "fresh_id s tid \<Longrightarrow> tracked_as s uid (JStr tid) = []"
  by (auto simp: fresh_id_def tracked_as_def list_all_iff filter_empty_conv dest: strict_eq_eq)

lemma post_jobIds_unique:
  assumes "jobIds_unique s" and "fresh_id s tid"
  shows "jobIds_unique (snd (router_post s uid body tid now))"
proof -
  let ?new = "new_tracked_job uid body tid now"
  have "length (tracked_as (s @ [(tid, ?new)]) u j) \<le> 1"
    if free: "\<not> already_tracked s uid (post_jobId body)" for u j
  proof (cases "userId ?new = u \<and> strict_eq (jobId ?new) j")
    case False
    then have "tracked_as (s @ [(tid, ?new)]) u j = tracked_as s u j"
      by (auto simp: tracked_as_def)
    with assms(1) show ?thesis by (simp add: jobIds_unique_def)
  next
    case True
    then have u: "u = uid" and j: "j = jobId ?new"
      by (auto simp: new_tracked_job_def dest: strict_eq_eq)
    have "tracked_as s u j = []"
    proof (cases "truthy (post_jobId body)")
      case True
      then have "j = post_jobId body" using j by (simp add: new_tracked_job_def js_or_def)
      with free u show ?thesis by (simp add: not_tracked_empty)
    next
      case False
      then have "j = JStr tid" using j by (simp add: new_tracked_job_def js_or_def)
      with assms(2) show ?thesis by (simp add: fresh_not_tracked)
    qed
    then show ?thesis by (simp add: tracked_as_def)
  qed
  moreover have "store_set s tid ?new = s @ [(tid, ?new)]"
    using assms(2) by (simp add: fresh_id_def store_set_fresh)
  ultimately show ?thesis
    using assms(1) by (simp add: router_post_def Let_def jobIds_unique_def)
qed

lemma step_jobIds_unique:
  assumes "jobIds_unique s" and "uuid_ok s r"
  shows "jobIds_unique (step s r)"
proof (cases r)
  case (Create uid body tid now)
  with assms show ?thesis by (simp add: post_jobIds_unique)
next
  case (Update tid uid body now)
  show ?thesis
  proof (cases "store_get s tid")
    case None
    with Update assms show ?thesis by (simp add: router_put_def)
  next
    case (Some job)
    have "length (tracked_as (store_set s tid (apply_update job body now)) u j) =
          length (tracked_as s u j)" for u j
      unfolding tracked_as_def
      by (rule length_filter_store_set [OF Some]) (simp add: apply_update_keeps)
    with Some Update assms show ?thesis
      by (simp add: router_put_def Let_def jobIds_unique_def)
  qed
next
  case (Delete tid uid)
  have "length (tracked_as (store_delete s tid) u j) \<le> 1" for u j
    using assms(1) length_filter_store_delete [of _ s tid]
    unfolding jobIds_unique_def tracked_as_def by (meson le_trans)
  with Delete assms show ?thesis
    by (simp add: router_delete_def jobIds_unique_def split: option.splits)
qed

lemma run_jobIds_unique:
  "jobIds_unique s \<Longrightarrow> trace_ok s rs \<Longrightarrow> jobIds_unique (run s rs)"
  by (induction rs arbitrary: s) (auto intro: step_jobIds_unique)

text \<open>
  Updates and deletions keep every status among \<^verbatim>\<open>validStatuses\<close>; a creation does so
  when its body has no status or a valid one.
\<close>

lemma step_statuses_valid:
  assumes "statuses_valid s"
    and "case r of
           Create uid body tid now \<Rightarrow>
             post_status body = JUndefined \<or> array_includes validStatuses (post_status body)
         | Update tid uid body now \<Rightarrow> True
         | Delete tid uid \<Rightarrow> True"
  shows "statuses_valid (step s r)"
proof (cases r)
  case (Create uid body tid now)
  have "array_includes validStatuses (JStr ''saved'')"
    by (simp add: validStatuses_def)
  with Create assms show ?thesis
    by (auto simp: statuses_valid_def router_post_def Let_def new_tracked_job_def
          intro!: list_all_store_set)
next
  case (Update tid uid body now)
  show ?thesis
  proof (cases "store_get s tid")
    case None
    with Update assms show ?thesis by (simp add: router_put_def)
  next
    case (Some job)
    from store_get_in_set [OF Some] assms(1)
    have "array_includes validStatuses (status job)"
      by (auto simp: statuses_valid_def list_all_iff)
    with Some Update assms(1) show ?thesis
      by (auto simp: statuses_valid_def router_put_def Let_def apply_update_def
            intro!: list_all_store_set)
  qed
next
  case (Delete tid uid)
  with assms show ?thesis
    by (auto simp: statuses_valid_def router_delete_def intro: list_all_store_delete
          split: option.splits)
qed

section \<open>The status of a stored job\<close>

text \<open>
  C1. The claim is that after any sequence of creations, updates and deletions the status
  of every stored job is one of \<^verbatim>\<open>saved\<close>, \<^verbatim>\<open>applied\<close>, \<^verbatim>\<open>interviewing\<close>, \<^verbatim>\<open>offered\<close>,
  \<^verbatim>\<open>rejected\<close>. The creation handler stores the status of the body as it comes: one
  creation with the status \<^verbatim>\<open>bogus\<close>, on the empty store, leaves a job whose status is
  \<^verbatim>\<open>bogus\<close>, which \<^verbatim>\<open>validStatuses\<close> does not include.
\<close>

theorem create_stores_unchecked_status:
  "trace_ok []
     [Create ''u1'' ((minimal_body (JStr ''Dev'') (JStr ''Acme''))\<lparr>post_status := JStr ''bogus''\<rparr>)
        ''t1'' 5] \<and>
   map (\<lambda>p. status (snd p))
     (run []
        [Create ''u1'' ((minimal_body (JStr ''Dev'') (JStr ''Acme''))\<lparr>post_status := JStr ''bogus''\<rparr>)
           ''t1'' 5]) = [JStr ''bogus''] \<and>
   \<not> array_includes validStatuses (JStr ''bogus'')"
  by (simp add: fresh_id_def router_post_def minimal_body_def new_tracked_job_def
        validStatuses_def Let_def)

section \<open>Creation: the duplicate check\<close>

text \<open>
  C2, as amended. When title and company are both truthy, a creation throws the 400
  error \<^verbatim>\<open>Job already tracked\<close> exactly when some stored job has the caller's
  \<^verbatim>\<open>userId\<close> and a \<^verbatim>\<open>jobId\<close> strictly equal to the one supplied, and then the store is
  unchanged. In a store that a run of requests has built from the empty one, that failure
  leaves exactly one job of that user with that \<^verbatim>\<open>jobId\<close>, and a creation whose
  \<^verbatim>\<open>jobId\<close> is absent (or falsy in any other way) never throws that error.
\<close>

theorem create_conflict:
  assumes "truthy (post_title body)" and "truthy (post_company body)"
  shows "((fst (router_post s uid body tid now) = Inl (ApiError 400 ''Job already tracked'')) =
            (\<exists>p \<in> set s. userId (snd p) = uid \<and> strict_eq (jobId (snd p)) (post_jobId body))) \<and>
         (fst (router_post s uid body tid now) = Inl (ApiError 400 ''Job already tracked'') \<longrightarrow>
            snd (router_post s uid body tid now) = s) \<and>
         (trace_ok [] rs \<and> s = run [] rs \<and>
          fst (router_post s uid body tid now) = Inl (ApiError 400 ''Job already tracked'') \<longrightarrow>
            length (tracked_as s uid (post_jobId body)) = 1) \<and>
         (trace_ok [] rs \<and> s = run [] rs \<and> \<not> truthy (post_jobId body) \<longrightarrow>
            fst (router_post s uid body tid now) \<noteq> Inl (ApiError 400 ''Job already tracked''))"
proof -
  let ?conflict =
    "fst (router_post s uid body tid now) = Inl (ApiError 400 ''Job already tracked'')"
  have c: "?conflict = already_tracked s uid (post_jobId body)"
    using assms by (simp add: router_post_def Let_def)
  have 1: "?conflict =
             (\<exists>p \<in> set s. userId (snd p) = uid \<and> strict_eq (jobId (snd p)) (post_jobId body))"
    unfolding c by (simp add: already_tracked_iff list_ex_iff)
  have 2: "?conflict \<longrightarrow> snd (router_post s uid body tid now) = s"
    by (simp add: router_post_def Let_def)
  have 3: "length (tracked_as s uid (post_jobId body)) = 1"
    if "trace_ok [] rs" "s = run [] rs" ?conflict
  proof -
    have "jobIds_unique s"
      using that run_jobIds_unique [of "[]" rs] by (simp add: jobIds_unique_def tracked_as_def)
    then have "length (tracked_as s uid (post_jobId body)) \<le> 1"
      by (simp add: jobIds_unique_def)
    moreover have "0 < length (tracked_as s uid (post_jobId body))"
      using that c tracked_length_pos [of s uid "post_jobId body"] by blast
    ultimately show ?thesis by linarith
  qed
  have 4: "\<not> ?conflict" if "trace_ok [] rs" "s = run [] rs" "\<not> truthy (post_jobId body)"
  proof -
    have "jobIds_truthy s"
      using that run_jobIds_truthy [of "[]" rs] by (simp add: jobIds_truthy_def)
    with that(3) show ?thesis
      unfolding c by (rule falsy_not_tracked [rotated])
  qed
  from 1 2 3 4 show ?thesis by blast
qed

theorem create_conflict_witness:
  "fst (router_post
          (run [] [Create ''u1'' ((minimal_body (JStr ''Dev'') (JStr ''Acme''))\<lparr>post_jobId := JStr ''J1''\<rparr>) ''t1'' 5])
          ''u1'' ((minimal_body (JStr ''Dev'') (JStr ''Acme''))\<lparr>post_jobId := JStr ''J1''\<rparr>) ''t2'' 6) =
     Inl (ApiError 400 ''Job already tracked'') \<and>
   snd (router_post
          (run [] [Create ''u1'' ((minimal_body (JStr ''Dev'') (JStr ''Acme''))\<lparr>post_jobId := JStr ''J1''\<rparr>) ''t1'' 5])
          ''u1'' ((minimal_body (JStr ''Dev'') (JStr ''Acme''))\<lparr>post_jobId := JStr ''J1''\<rparr>) ''t2'' 6) =
     run [] [Create ''u1'' ((minimal_body (JStr ''Dev'') (JStr ''Acme''))\<lparr>post_jobId := JStr ''J1''\<rparr>) ''t1'' 5] \<and>
   length (tracked_as
          (run [] [Create ''u1'' ((minimal_body (JStr ''Dev'') (JStr ''Acme''))\<lparr>post_jobId := JStr ''J1''\<rparr>) ''t1'' 5])
          ''u1'' (JStr ''J1'')) = 1 \<and>
   fst (router_post
          (run [] [Create ''u1'' ((minimal_body (JStr ''Dev'') (JStr ''Acme''))\<lparr>post_jobId := JStr ''J1''\<rparr>) ''t1'' 5])
          ''u1'' (minimal_body (JStr ''QA'') (JStr ''Acme'')) ''t2'' 6) \<noteq>
     Inl (ApiError 400 ''Job already tracked'')"
proof -
  let ?b = "(minimal_body (JStr ''Dev'') (JStr ''Acme''))\<lparr>post_jobId := JStr ''J1''\<rparr>"
  let ?q = "minimal_body (JStr ''QA'') (JStr ''Acme'')"
  let ?rs = "[Create ''u1'' ?b ''t1'' 5]"
  have tb: "truthy (post_title ?b)" "truthy (post_company ?b)"
    by (simp_all add: minimal_body_def)
  have tq: "truthy (post_title ?q)" "truthy (post_company ?q)"
    by (simp_all add: minimal_body_def)
  have ok: "trace_ok [] ?rs" by (simp add: fresh_id_def)
  have dup: "\<exists>p \<in> set (run [] ?rs). userId (snd p) = ''u1'' \<and> strict_eq (jobId (snd p)) (post_jobId ?b)"
    by (simp add: eval_defs)
  have nj: "\<not> truthy (post_jobId ?q)" by (simp add: minimal_body_def)
  have pj: "post_jobId ?b = JStr ''J1''" by (simp add: minimal_body_def)
  note A = create_conflict [OF tb, of "run [] ?rs" "''u1''" "''t2''" 6 ?rs]
  note B = create_conflict [OF tq, of "run [] ?rs" "''u1''" "''t2''" 6 ?rs]
  from A dup have c: "fst (router_post (run [] ?rs) ''u1'' ?b ''t2'' 6) =
      Inl (ApiError 400 ''Job already tracked'')" by blast
  from A c have u: "snd (router_post (run [] ?rs) ''u1'' ?b ''t2'' 6) = run [] ?rs" by blast
  from A c ok have l: "length (tracked_as (run [] ?rs) ''u1'' (post_jobId ?b)) = 1" by blast
  from B ok nj have n: "fst (router_post (run [] ?rs) ''u1'' ?q ''t2'' 6) \<noteq>
      Inl (ApiError 400 ''Job already tracked'')" by blast
  show ?thesis by (intro conjI c u l [unfolded pj] n)
qed

text \<open>
  Where the iff fails without the proviso: the store holds one job of \<^verbatim>\<open>u1\<close> with the
  \<^verbatim>\<open>jobId\<close> \<^verbatim>\<open>J1\<close>, and a creation by \<^verbatim>\<open>u1\<close> with that \<^verbatim>\<open>jobId\<close> and no title throws
  the validation error, not \<^verbatim>\<open>Job already tracked\<close>.
\<close>

theorem create_conflict_counterexample:
  "length (tracked_as
          (run [] [Create ''u1'' ((minimal_body (JStr ''Dev'') (JStr ''Acme''))\<lparr>post_jobId := JStr ''J1''\<rparr>) ''t1'' 5])
          ''u1'' (JStr ''J1'')) = 1 \<and>
   router_post
     (run [] [Create ''u1'' ((minimal_body (JStr ''Dev'') (JStr ''Acme''))\<lparr>post_jobId := JStr ''J1''\<rparr>) ''t1'' 5])
     ''u1'' ((minimal_body JUndefined (JStr ''Acme''))\<lparr>post_jobId := JStr ''J1''\<rparr>) ''t2'' 6 =
     (Inl (ApiError 400 ''Job title and company are required''),
      run [] [Create ''u1'' ((minimal_body (JStr ''Dev'') (JStr ''Acme''))\<lparr>post_jobId := JStr ''J1''\<rparr>) ''t1'' 5]) \<and>
   ApiError 400 ''Job title and company are required'' \<noteq> ApiError 400 ''Job already tracked''"
  by (simp add: eval_defs)

section \<open>Update\<close>

text \<open>
  C3, as amended. An update checks in this order: it throws 404 when the store has no job
  under the tracker id; otherwise 403 when the job's \<^verbatim>\<open>userId\<close> is not the caller;
  otherwise 400 when the status of the body is truthy and is none of the five strings of
  \<^verbatim>\<open>validStatuses\<close>. Whenever it throws, the store is unchanged.
\<close>

theorem update_failure_order:
  "(store_get s tid = None \<longrightarrow>
      router_put s tid uid body now = (Inl (ApiError 404 ''Tracked job not found''), s)) \<and>
   (store_get s tid = Some job \<and> userId job \<noteq> uid \<longrightarrow>
      router_put s tid uid body now = (Inl (ApiError 403 ''Access denied''), s)) \<and>
   (store_get s tid = Some job \<and> userId job = uid \<and> truthy (put_status body) \<and>
    put_status body \<notin> {JStr ''saved'', JStr ''applied'', JStr ''interviewing'',
                          JStr ''offered'', JStr ''rejected''} \<longrightarrow>
      router_put s tid uid body now = (Inl (ApiError 400 ''Invalid status''), s)) \<and>
   (fst (router_put s tid uid body now) = Inl e \<longrightarrow> snd (router_put s tid uid body now) = s)"
  by (auto simp: router_put_def array_includes_iff validStatuses_def Let_def
        split: option.splits)

theorem update_failure_order_witness:
  "router_put (run [] [Create ''u1'' (minimal_body (JStr ''Dev'') (JStr ''Acme'')) ''t1'' 5])
     ''t9'' ''u1'' \<lparr>put_status = JStr ''applied'', put_notes = JUndefined\<rparr> 7 =
     (Inl (ApiError 404 ''Tracked job not found''),
      run [] [Create ''u1'' (minimal_body (JStr ''Dev'') (JStr ''Acme'')) ''t1'' 5]) \<and>
   router_put (run [] [Create ''u1'' (minimal_body (JStr ''Dev'') (JStr ''Acme'')) ''t1'' 5])
     ''t1'' ''u2'' \<lparr>put_status = JStr ''applied'', put_notes = JUndefined\<rparr> 7 =
     (Inl (ApiError 403 ''Access denied''),
      run [] [Create ''u1'' (minimal_body (JStr ''Dev'') (JStr ''Acme'')) ''t1'' 5]) \<and>
   router_put (run [] [Create ''u1'' (minimal_body (JStr ''Dev'') (JStr ''Acme'')) ''t1'' 5])
     ''t1'' ''u1'' \<lparr>put_status = JStr ''bogus'', put_notes = JUndefined\<rparr> 7 =
     (Inl (ApiError 400 ''Invalid status''),
      run [] [Create ''u1'' (minimal_body (JStr ''Dev'') (JStr ''Acme'')) ''t1'' 5])"
proof -
  let ?s = "run [] [Create ''u1'' (minimal_body (JStr ''Dev'') (JStr ''Acme'')) ''t1'' 5]"
  let ?job = "new_tracked_job ''u1'' (minimal_body (JStr ''Dev'') (JStr ''Acme'')) ''t1'' 5"
  let ?ok = "\<lparr>put_status = JStr ''applied'', put_notes = JUndefined\<rparr>"
  let ?bad = "\<lparr>put_status = JStr ''bogus'', put_notes = JUndefined\<rparr>"
  have g9: "store_get ?s ''t9'' = None"
    by (simp add: router_post_def minimal_body_def Let_def)
  have g1: "store_get ?s ''t1'' = Some ?job"
    by (simp add: router_post_def minimal_body_def Let_def)
  have own: "userId ?job = ''u1''" "userId ?job \<noteq> ''u2''"
    by (simp_all add: new_tracked_job_def)
  have bad: "truthy (put_status ?bad)"
    "put_status ?bad \<notin> {JStr ''saved'', JStr ''applied'', JStr ''interviewing'',
                           JStr ''offered'', JStr ''rejected''}"
    by simp_all
  from update_failure_order [of ?s "''t9''" "''u1''" ?ok 7] g9
  have a: "router_put ?s ''t9'' ''u1'' ?ok 7 = (Inl (ApiError 404 ''Tracked job not found''), ?s)"
    by blast
  from update_failure_order [of ?s "''t1''" "''u2''" ?ok 7 ?job] g1 own
  have b: "router_put ?s ''t1'' ''u2'' ?ok 7 = (Inl (ApiError 403 ''Access denied''), ?s)"
    by blast
  from update_failure_order [of ?s "''t1''" "''u1''" ?bad 7 ?job] g1 own bad
  have c: "router_put ?s ''t1'' ''u1'' ?bad 7 = (Inl (ApiError 400 ''Invalid status''), ?s)"
    by blast
  show ?thesis by (intro conjI a b c)
qed

text \<open>
  A status that is supplied and is none of the five values, yet throws nothing: the empty
  string. The update answers 200 and only \<^verbatim>\<open>updatedAt\<close> changes.
\<close>

theorem update_supplied_status_counterexample:
  "put_status \<lparr>put_status = JStr [], put_notes = JUndefined\<rparr> \<noteq> JUndefined \<and>
   \<not> array_includes validStatuses (put_status \<lparr>put_status = JStr [], put_notes = JUndefined\<rparr>) \<and>
   fst (router_put (run [] [Create ''u1'' (minimal_body (JStr ''Dev'') (JStr ''Acme'')) ''t1'' 5])
          ''t1'' ''u1'' \<lparr>put_status = JStr [], put_notes = JUndefined\<rparr> 7) =
     Inr (JobResponse 200 ''Job updated successfully''
            (''t1'', (new_tracked_job ''u1'' (minimal_body (JStr ''Dev'') (JStr ''Acme'')) ''t1'' 5)
                       \<lparr>updatedAt := 7\<rparr>))"
  by (simp add: router_put_def router_post_def minimal_body_def apply_update_def
        new_tracked_job_def validStatuses_def Let_def)

text \<open>
  C4. On a job that exists and belongs to the caller, an update whose body has neither
  status nor notes succeeds and stores the job with \<^verbatim>\<open>updatedAt\<close> set to the current
  time and every other field as it was; the key is the same tracker id.
\<close>

theorem update_nothing_supplied:
  assumes "store_get s tid = Some job" and "userId job = uid"
    and "put_status body = JUndefined" and "put_notes body = JUndefined"
  shows "router_put s tid uid body now =
           (Inr (JobResponse 200 ''Job updated successfully'' (tid, job\<lparr>updatedAt := now\<rparr>)),
            store_set s tid (job\<lparr>updatedAt := now\<rparr>)) \<and>
         store_get (snd (router_put s tid uid body now)) tid = Some (job\<lparr>updatedAt := now\<rparr>) \<and>
         map fst (snd (router_put s tid uid body now)) = map fst s"
proof -
  have "map fst (store_set s tid v) = map fst s" for v
    using assms(1) by (induction s tid v rule: store_set.induct) (auto split: if_splits)
  with assms show ?thesis
    by (simp add: router_put_def apply_update_def store_get_set Let_def)
qed

theorem update_nothing_supplied_witness:
  "router_put (run [] [Create ''u1'' (minimal_body (JStr ''Dev'') (JStr ''Acme'')) ''t1'' 5])
     ''t1'' ''u1'' \<lparr>put_status = JUndefined, put_notes = JUndefined\<rparr> 7 =
     (Inr (JobResponse 200 ''Job updated successfully''
        (''t1'', (new_tracked_job ''u1'' (minimal_body (JStr ''Dev'') (JStr ''Acme'')) ''t1'' 5)
                   \<lparr>updatedAt := 7\<rparr>)),
      [(''t1'', (new_tracked_job ''u1'' (minimal_body (JStr ''Dev'') (JStr ''Acme'')) ''t1'' 5)
                   \<lparr>updatedAt := 7\<rparr>)])"
proof -
  let ?s = "run [] [Create ''u1'' (minimal_body (JStr ''Dev'') (JStr ''Acme'')) ''t1'' 5]"
  let ?job = "new_tracked_job ''u1'' (minimal_body (JStr ''Dev'') (JStr ''Acme'')) ''t1'' 5"
  let ?b = "\<lparr>put_status = JUndefined, put_notes = JUndefined\<rparr>"
  have s: "?s = [(''t1'', ?job)]"
    by (simp add: router_post_def minimal_body_def Let_def)
  have g: "store_get ?s ''t1'' = Some ?job"
    unfolding s by simp
  have own: "userId ?job = ''u1''"
    by (simp add: new_tracked_job_def)
  have b: "put_status ?b = JUndefined" "put_notes ?b = JUndefined"
    by simp_all
  from update_nothing_supplied [OF g own b, of 7]
  have "router_put ?s ''t1'' ''u1'' ?b 7 =
          (Inr (JobResponse 200 ''Job updated successfully'' (''t1'', ?job\<lparr>updatedAt := 7\<rparr>)),
           store_set ?s ''t1'' (?job\<lparr>updatedAt := 7\<rparr>))"
    by blast
  also have "store_set ?s ''t1'' (?job\<lparr>updatedAt := 7\<rparr>) = [(''t1'', ?job\<lparr>updatedAt := 7\<rparr>)]"
    unfolding s by simp
  finally show ?thesis .
qed

text \<open>
  C9. On a job that exists and belongs to the caller, an update whose status is the empty
  string throws nothing: it answers 200 with the updated job and leaves the job's status as
  it was.
\<close>

theorem update_empty_status:
  assumes "store_get s tid = Some job" and "userId job = uid" and "put_status body = JStr []"
  shows "\<exists>job'. router_put s tid uid body now =
           (Inr (JobResponse 200 ''Job updated successfully'' (tid, job')), store_set s tid job') \<and>
         store_get (snd (router_put s tid uid body now)) tid = Some job' \<and>
         status job' = status job"
  using assms by (simp add: router_put_def apply_update_def store_get_set Let_def)

theorem update_empty_status_witness:
  "map (\<lambda>p. status (snd p))
     (snd (router_put (run [] [Create ''u1'' (minimal_body (JStr ''Dev'') (JStr ''Acme'')) ''t1'' 5])
        ''t1'' ''u1'' \<lparr>put_status = JStr [], put_notes = JStr ''called''\<rparr> 7)) = [JStr ''saved''] \<and>
   \<not> isl (fst (router_put (run [] [Create ''u1'' (minimal_body (JStr ''Dev'') (JStr ''Acme'')) ''t1'' 5])
        ''t1'' ''u1'' \<lparr>put_status = JStr [], put_notes = JStr ''called''\<rparr> 7))"
proof -
  let ?s = "run [] [Create ''u1'' (minimal_body (JStr ''Dev'') (JStr ''Acme'')) ''t1'' 5]"
  let ?job = "new_tracked_job ''u1'' (minimal_body (JStr ''Dev'') (JStr ''Acme'')) ''t1'' 5"
  let ?b = "\<lparr>put_status = JStr [], put_notes = JStr ''called''\<rparr>"
  have s: "?s = [(''t1'', ?job)]"
    by (simp add: router_post_def minimal_body_def Let_def)
  have g: "store_get ?s ''t1'' = Some ?job"
    unfolding s by simp
  have own: "userId ?job = ''u1''" and st: "status ?job = JStr ''saved''"
    by (simp_all add: new_tracked_job_def minimal_body_def)
  have b: "put_status ?b = JStr []"
    by simp
  from update_empty_status [OF g own b, of 7]
  obtain job' where r: "router_put ?s ''t1'' ''u1'' ?b 7 =
      (Inr (JobResponse 200 ''Job updated successfully'' (''t1'', job')), store_set ?s ''t1'' job')"
    and j: "status job' = status ?job"
    by blast
  have "store_set ?s ''t1'' job' = [(''t1'', job')]"
    unfolding s by simp
  with r j st show ?thesis by simp
qed

section \<open>Creation: defaults\<close>

text \<open>
  C5. A creation whose body has a title and a company and nothing else, when it succeeds
  with a tracker id that is not yet a key of the store, appends exactly one entry under
  that id. The new job has location \<^verbatim>\<open>Remote\<close>, job type \<^verbatim>\<open>Full-time\<close>, status
  \<^verbatim>\<open>saved\<close>, no notes, the tracker id as its \<^verbatim>\<open>jobId\<close>, and \<^verbatim>\<open>createdAt\<close> equal to
  \<^verbatim>\<open>updatedAt\<close>; the 201 response carries the id and that job.
\<close>

theorem create_minimal_defaults:
  assumes "store_get s tid = None"
    and "fst (router_post s uid (minimal_body t c) tid now) = Inr r"
  shows "\<exists>job. r = JobResponse 201 ''Job tracked successfully'' (tid, job) \<and>
           snd (router_post s uid (minimal_body t c) tid now) = s @ [(tid, job)] \<and>
           userId job = uid \<and> title job = t \<and> company job = c \<and>
           location job = JStr ''Remote'' \<and> jobType job = JStr ''Full-time'' \<and>
           status job = JStr ''saved'' \<and> job_notes job = [] \<and> jobId job = JStr tid \<and>
           createdAt job = updatedAt job \<and> createdAt job = now"
  using assms
  by (auto simp: router_post_def Let_def new_tracked_job_def minimal_body_def js_or_def
        store_set_fresh split: if_splits)

theorem create_minimal_defaults_witness:
  "map (\<lambda>p. (fst p, location (snd p), jobType (snd p), status (snd p), job_notes (snd p),
              jobId (snd p), createdAt (snd p), updatedAt (snd p)))
     (snd (router_post [] ''u1'' (minimal_body (JStr ''Dev'') (JStr ''Acme'')) ''t1'' 5)) =
     [(''t1'', JStr ''Remote'', JStr ''Full-time'', JStr ''saved'', [], JStr ''t1'', 5, 5)]"
proof -
  let ?b = "minimal_body (JStr ''Dev'') (JStr ''Acme'')"
  let ?job = "new_tracked_job ''u1'' ?b ''t1'' 5"
  have g: "store_get [] ''t1'' = None"
    by simp
  have r: "fst (router_post [] ''u1'' ?b ''t1'' 5) =
             Inr (JobResponse 201 ''Job tracked successfully'' (''t1'', ?job))"
    by (simp add: router_post_def minimal_body_def Let_def)
  from create_minimal_defaults [OF g r]
  show ?thesis by auto
qed

section \<open>Creation: validation\<close>

text \<open>
  C6. A creation whose title or company is missing (\<^verbatim>\<open>undefined\<close>) or empty (the empty
  string) throws the 400 error \<^verbatim>\<open>Job title and company are required\<close>, and the store it
  leaves is the store it found.
\<close>

theorem create_validation_error:
  assumes "post_title body = JUndefined \<or> post_title body = JStr [] \<or>
           post_company body = JUndefined \<or> post_company body = JStr []"
  shows "router_post s uid body trackerId now =
           (Inl (ApiError 400 ''Job title and company are required''), s)"
  using assms by (auto simp: router_post_def)

theorem create_validation_error_witness:
  "router_post [] ''u1'' (minimal_body JUndefined (JStr ''Acme'')) ''t1'' 5 =
     (Inl (ApiError 400 ''Job title and company are required''), []) \<and>
   router_post [] ''u1'' (minimal_body (JStr ''Dev'') (JStr [])) ''t1'' 5 =
     (Inl (ApiError 400 ''Job title and company are required''), [])"
  using create_validation_error [of "minimal_body JUndefined (JStr ''Acme'')" "[]" "''u1''" "''t1''" 5]
    create_validation_error [of "minimal_body (JStr ''Dev'') (JStr [])" "[]" "''u1''" "''t1''" 5]
  by (simp add: minimal_body_def)

section \<open>Creation: a falsy jobId\<close>

text \<open>
  C10, as amended. Provided title and company are both truthy, a creation defaults the
  \<^verbatim>\<open>jobId\<close> to the generated tracker id for every falsy value supplied (absent,
  \<^verbatim>\<open>null\<close>, \<^verbatim>\<open>false\<close>, zero or the empty string): in a store that a run of requests has
  built from the empty one, such a creation succeeds and stores the tracker id as the
  \<^verbatim>\<open>jobId\<close>.
\<close>

theorem create_falsy_jobId:
  assumes "trace_ok [] rs" and "truthy (post_title body)" and "truthy (post_company body)"
    and "\<not> truthy (post_jobId body)"
  shows "\<exists>job. router_post (run [] rs) uid body tid now =
           (Inr (JobResponse 201 ''Job tracked successfully'' (tid, job)),
            store_set (run [] rs) tid job) \<and>
         store_get (snd (router_post (run [] rs) uid body tid now)) tid = Some job \<and>
         jobId job = JStr tid"
proof -
  have "jobIds_truthy (run [] rs)"
    using assms(1) run_jobIds_truthy [of "[]" rs] by (simp add: jobIds_truthy_def)
  then have "\<not> already_tracked (run [] rs) uid (post_jobId body)"
    using assms(4) by (rule falsy_not_tracked)
  with assms show ?thesis
    by (simp add: router_post_def Let_def store_get_set new_tracked_job_def js_or_def)
qed

theorem create_falsy_jobId_witness:
  "map_option jobId
     (store_get
        (snd (router_post
                (run [] [Create ''u1'' (minimal_body (JStr ''Dev'') (JStr ''Acme'')) ''t1'' 5])
                ''u1'' ((minimal_body (JStr ''QA'') (JStr ''Acme''))\<lparr>post_jobId := JStr []\<rparr>)
                ''t2'' 6))
        ''t2'') = Some (JStr ''t2'') \<and>
   \<not> isl (fst (router_post
                (run [] [Create ''u1'' (minimal_body (JStr ''Dev'') (JStr ''Acme'')) ''t1'' 5])
                ''u1'' ((minimal_body (JStr ''QA'') (JStr ''Acme''))\<lparr>post_jobId := JStr []\<rparr>)
                ''t2'' 6))"
proof -
  let ?rs = "[Create ''u1'' (minimal_body (JStr ''Dev'') (JStr ''Acme'')) ''t1'' 5]"
  let ?b = "(minimal_body (JStr ''QA'') (JStr ''Acme''))\<lparr>post_jobId := JStr []\<rparr>"
  have ok: "trace_ok [] ?rs"
    by (simp add: fresh_id_def)
  have b: "truthy (post_title ?b)" "truthy (post_company ?b)" "\<not> truthy (post_jobId ?b)"
    by (simp_all add: minimal_body_def)
  from create_falsy_jobId [OF ok b, of "''u1''" "''t2''" 6]
  obtain job where r: "router_post (run [] ?rs) ''u1'' ?b ''t2'' 6 =
        (Inr (JobResponse 201 ''Job tracked successfully'' (''t2'', job)),
         store_set (run [] ?rs) ''t2'' job)"
    and g: "store_get (snd (router_post (run [] ?rs) ''u1'' ?b ''t2'' 6)) ''t2'' = Some job"
    and j: "jobId job = JStr ''t2''"
    by blast
  have "\<not> isl (fst (router_post (run [] ?rs) ''u1'' ?b ''t2'' 6))"
    unfolding r by simp
  moreover have "map_option jobId
      (store_get (snd (router_post (run [] ?rs) ''u1'' ?b ''t2'' 6)) ''t2'') = Some (JStr ''t2'')"
    unfolding g using j by simp
  ultimately show ?thesis by (intro conjI)
qed

text \<open>
  Without the proviso the creation does not succeed: with the empty string as \<^verbatim>\<open>jobId\<close>
  and no title it throws the validation error and stores nothing.
\<close>

theorem create_falsy_jobId_counterexample:
  "post_jobId ((minimal_body JUndefined (JStr ''Acme''))\<lparr>post_jobId := JStr []\<rparr>) = JStr [] \<and>
   router_post [] ''u1'' ((minimal_body JUndefined (JStr ''Acme''))\<lparr>post_jobId := JStr []\<rparr>)
     ''t1'' 5 =
     (Inl (ApiError 400 ''Job title and company are required''), [])"
  by (simp add: router_post_def minimal_body_def)

section \<open>Listing\<close>

text \<open>
  C7. A listing answers with the caller's jobs and no others, each as often as the store
  holds it, in an order in which \<^verbatim>\<open>createdAt\<close> never increases, together with their
  number; the store is left as it was.
\<close>

theorem list_callers_jobs_newest_first:
  "snd (router_get s uid) = s \<and>
   (\<exists>jobs. fst (router_get s uid) = ListResponse 200 jobs (length jobs) \<and>
      mset jobs = filter_mset (\<lambda>p. userId (snd p) = uid) (mset s) \<and>
      sorted_wrt (\<lambda>a b. createdAt (snd b) \<le> createdAt (snd a)) jobs)"
  by (simp add: router_get_def Let_def mset_js_sort user_jobs_filter sorted_js_sort_newest)

theorem list_callers_jobs_newest_first_witness:
  "map fst (trackedJobs (fst (router_get
     (run [] [Create ''u1'' (minimal_body (JStr ''Dev'') (JStr ''Acme'')) ''t1'' 5,
              Create ''u2'' (minimal_body (JStr ''QA'') (JStr ''Acme'')) ''t2'' 6,
              Create ''u1'' (minimal_body (JStr ''Ops'') (JStr ''Acme'')) ''t3'' 9])
     ''u1''))) = [''t3'', ''t1''] \<and>
   map fst (snd (router_get
     (run [] [Create ''u1'' (minimal_body (JStr ''Dev'') (JStr ''Acme'')) ''t1'' 5,
              Create ''u2'' (minimal_body (JStr ''QA'') (JStr ''Acme'')) ''t2'' 6,
              Create ''u1'' (minimal_body (JStr ''Ops'') (JStr ''Acme'')) ''t3'' 9])
     ''u1'')) = [''t1'', ''t2'', ''t3'']"
  using list_callers_jobs_newest_first
    [of "run [] [Create ''u1'' (minimal_body (JStr ''Dev'') (JStr ''Acme'')) ''t1'' 5,
                 Create ''u2'' (minimal_body (JStr ''QA'') (JStr ''Acme'')) ''t2'' 6,
                 Create ''u1'' (minimal_body (JStr ''Ops'') (JStr ''Acme'')) ''t3'' 9]" "''u1''"]
  by (simp add: eval_defs)

section \<open>Deletion\<close>

text \<open>
  C8. A deletion makes the two checks of an update in the same order, with the same
  errors: 404 when the store has no job under the tracker id, otherwise 403 when the job
  is not the caller's. Otherwise it answers 200 and removes that job and no other: the
  store it leaves is the old one without the entry of the tracker id, so every other key
  keeps its job, the tracker id is no longer a key, a later listing holds what it held
  before except that entry, and a second deletion of the tracker id throws 404.
\<close>

theorem delete_checks_then_removes:
  "(store_get s tid = None \<longrightarrow>
      router_delete s tid uid = (Inl (ApiError 404 ''Tracked job not found''), s) \<and>
      fst (router_put s tid uid body now) = fst (router_delete s tid uid)) \<and>
   (store_get s tid = Some job \<and> userId job \<noteq> uid \<longrightarrow>
      router_delete s tid uid = (Inl (ApiError 403 ''Access denied''), s) \<and>
      fst (router_put s tid uid body now) = fst (router_delete s tid uid)) \<and>
   (store_get s tid = Some job \<and> userId job = uid \<longrightarrow>
      router_delete s tid uid =
        (Inr (AckResponse 200 ''Job removed from tracker''), store_delete s tid) \<and>
      snd (router_delete s tid uid) = filter (\<lambda>p. fst p \<noteq> tid) s \<and>
      store_get (snd (router_delete s tid uid)) tid = None \<and>
      (k \<noteq> tid \<longrightarrow> store_get (snd (router_delete s tid uid)) k = store_get s k) \<and>
      tid \<notin> fst ` set (trackedJobs (fst (router_get (snd (router_delete s tid uid)) uid'))) \<and>
      mset (trackedJobs (fst (router_get (snd (router_delete s tid uid)) uid'))) =
        filter_mset (\<lambda>p. fst p \<noteq> tid) (mset (trackedJobs (fst (router_get s uid')))) \<and>
      router_delete (snd (router_delete s tid uid)) tid uid' =
        (Inl (ApiError 404 ''Tracked job not found''), snd (router_delete s tid uid)))"
proof -
  let ?s' = "store_delete s tid"
  have flt: "?s' = filter (\<lambda>p. fst p \<noteq> tid) s"
    by (rule store_delete_filter)
  have gone: "store_get ?s' tid = None"
    by (simp add: store_get_delete)
  have frame: "k \<noteq> tid \<longrightarrow> store_get ?s' k = store_get s k"
    by (simp add: store_get_delete)
  have listed: "mset (trackedJobs (fst (router_get ?s' uid'))) =
      filter_mset (\<lambda>p. fst p \<noteq> tid) (mset (trackedJobs (fst (router_get s uid'))))"
    unfolding router_get_def Let_def fst_conv response.sel mset_js_sort user_jobs_filter flt
    by (simp add: filter_filter_mset conj_commute)
  have "set_mset (mset (trackedJobs (fst (router_get ?s' uid')))) \<subseteq> set ?s'"
    unfolding router_get_def Let_def fst_conv response.sel mset_js_sort user_jobs_filter
    by simp
  then have "set (trackedJobs (fst (router_get ?s' uid'))) \<subseteq> set ?s'"
    by simp
  with gone have absent: "tid \<notin> fst ` set (trackedJobs (fst (router_get ?s' uid')))"
    by (auto simp: store_get_None_iff)
  have again: "router_delete ?s' tid uid' = (Inl (ApiError 404 ''Tracked job not found''), ?s')"
    using gone by (simp add: router_delete_def)
  have fail: "store_get s tid = None \<longrightarrow>
      router_delete s tid uid = (Inl (ApiError 404 ''Tracked job not found''), s) \<and>
      fst (router_put s tid uid body now) = fst (router_delete s tid uid)"
    by (simp add: router_delete_def router_put_def)
  have deny: "store_get s tid = Some job \<and> userId job \<noteq> uid \<longrightarrow>
      router_delete s tid uid = (Inl (ApiError 403 ''Access denied''), s) \<and>
      fst (router_put s tid uid body now) = fst (router_delete s tid uid)"
    by (simp add: router_delete_def router_put_def)
  have succ: "router_delete s tid uid =
      (Inr (AckResponse 200 ''Job removed from tracker''), ?s')"
    if "store_get s tid = Some job" "userId job = uid"
    using that by (simp add: router_delete_def)
  show ?thesis
  proof (intro conjI impI)
    assume a: "store_get s tid = Some job \<and> userId job = uid"
    then have r: "snd (router_delete s tid uid) = ?s'"
      using succ by simp
    show "router_delete s tid uid =
        (Inr (AckResponse 200 ''Job removed from tracker''), store_delete s tid)"
      using a succ by simp
    show "snd (router_delete s tid uid) = filter (\<lambda>p. fst p \<noteq> tid) s"
      unfolding r by (rule flt)
    show "store_get (snd (router_delete s tid uid)) tid = None"
      unfolding r by (rule gone)
    show "store_get (snd (router_delete s tid uid)) k = store_get s k" if "k \<noteq> tid"
      unfolding r using frame that by simp
    show "tid \<notin> fst ` set (trackedJobs (fst (router_get (snd (router_delete s tid uid)) uid')))"
      unfolding r by (rule absent)
    show "mset (trackedJobs (fst (router_get (snd (router_delete s tid uid)) uid'))) =
        filter_mset (\<lambda>p. fst p \<noteq> tid) (mset (trackedJobs (fst (router_get s uid'))))"
      unfolding r by (rule listed)
    show "router_delete (snd (router_delete s tid uid)) tid uid' =
        (Inl (ApiError 404 ''Tracked job not found''), snd (router_delete s tid uid))"
      unfolding r by (rule again)
  qed (use fail deny in blast)+
qed

theorem delete_checks_then_removes_witness:
  "router_delete
     (run [] [Create ''u1'' (minimal_body (JStr ''Dev'') (JStr ''Acme'')) ''t1'' 5,
              Create ''u2'' (minimal_body (JStr ''QA'') (JStr ''Acme'')) ''t2'' 6])
     ''t9'' ''u1'' =
     (Inl (ApiError 404 ''Tracked job not found''),
      run [] [Create ''u1'' (minimal_body (JStr ''Dev'') (JStr ''Acme'')) ''t1'' 5,
              Create ''u2'' (minimal_body (JStr ''QA'') (JStr ''Acme'')) ''t2'' 6]) \<and>
   router_delete
     (run [] [Create ''u1'' (minimal_body (JStr ''Dev'') (JStr ''Acme'')) ''t1'' 5,
              Create ''u2'' (minimal_body (JStr ''QA'') (JStr ''Acme'')) ''t2'' 6])
     ''t1'' ''u2'' =
     (Inl (ApiError 403 ''Access denied''),
      run [] [Create ''u1'' (minimal_body (JStr ''Dev'') (JStr ''Acme'')) ''t1'' 5,
              Create ''u2'' (minimal_body (JStr ''QA'') (JStr ''Acme'')) ''t2'' 6]) \<and>
   router_delete
     (run [] [Create ''u1'' (minimal_body (JStr ''Dev'') (JStr ''Acme'')) ''t1'' 5,
              Create ''u2'' (minimal_body (JStr ''QA'') (JStr ''Acme'')) ''t2'' 6])
     ''t1'' ''u1'' =
     (Inr (AckResponse 200 ''Job removed from tracker''),
      [(''t2'', new_tracked_job ''u2'' (minimal_body (JStr ''QA'') (JStr ''Acme'')) ''t2'' 6)]) \<and>
   store_get
     [(''t2'', new_tracked_job ''u2'' (minimal_body (JStr ''QA'') (JStr ''Acme'')) ''t2'' 6)]
     ''t2'' =
     Some (new_tracked_job ''u2'' (minimal_body (JStr ''QA'') (JStr ''Acme'')) ''t2'' 6) \<and>
   router_delete
     [(''t2'', new_tracked_job ''u2'' (minimal_body (JStr ''QA'') (JStr ''Acme'')) ''t2'' 6)]
     ''t1'' ''u1'' =
     (Inl (ApiError 404 ''Tracked job not found''),
      [(''t2'', new_tracked_job ''u2'' (minimal_body (JStr ''QA'') (JStr ''Acme'')) ''t2'' 6)])"
proof -
  let ?s = "run [] [Create ''u1'' (minimal_body (JStr ''Dev'') (JStr ''Acme'')) ''t1'' 5,
                    Create ''u2'' (minimal_body (JStr ''QA'') (JStr ''Acme'')) ''t2'' 6]"
  let ?job = "new_tracked_job ''u1'' (minimal_body (JStr ''Dev'') (JStr ''Acme'')) ''t1'' 5"
  let ?job2 = "new_tracked_job ''u2'' (minimal_body (JStr ''QA'') (JStr ''Acme'')) ''t2'' 6"
  let ?b = "\<lparr>put_status = JUndefined, put_notes = JUndefined\<rparr>"
  have s: "?s = [(''t1'', ?job), (''t2'', ?job2)]"
    by (simp add: router_post_def minimal_body_def new_tracked_job_def js_or_def Let_def)
  have g9: "store_get ?s ''t9'' = None" and g1: "store_get ?s ''t1'' = Some ?job"
    and g2: "store_get ?s ''t2'' = Some ?job2"
    unfolding s by simp_all
  have own: "userId ?job = ''u1''" "userId ?job \<noteq> ''u2''"
    by (simp_all add: new_tracked_job_def)
  have d: "store_delete ?s ''t1'' = [(''t2'', ?job2)]"
    unfolding s by simp
  from delete_checks_then_removes [of ?s "''t9''" "''u1''" ?b 7] g9
  have a: "router_delete ?s ''t9'' ''u1'' = (Inl (ApiError 404 ''Tracked job not found''), ?s)"
    by blast
  from delete_checks_then_removes [of ?s "''t1''" "''u2''" ?b 7 ?job] g1 own
  have b: "router_delete ?s ''t1'' ''u2'' = (Inl (ApiError 403 ''Access denied''), ?s)"
    by blast
  note D = delete_checks_then_removes [of ?s "''t1''" "''u1''" ?b 7 ?job "''t2''" "''u1''"]
  from D g1 own
  have c: "router_delete ?s ''t1'' ''u1'' =
             (Inr (AckResponse 200 ''Job removed from tracker''), store_delete ?s ''t1'')"
    by blast
  then have r: "snd (router_delete ?s ''t1'' ''u1'') = [(''t2'', ?job2)]"
    unfolding d by simp
  from D g1 own
  have "store_get (snd (router_delete ?s ''t1'' ''u1'')) ''t2'' = store_get ?s ''t2''"
    by fastforce
  then have k: "store_get [(''t2'', ?job2)] ''t2'' = Some ?job2"
    unfolding r g2 .
  from D g1 own
  have "router_delete (snd (router_delete ?s ''t1'' ''u1'')) ''t1'' ''u1'' =
          (Inl (ApiError 404 ''Tracked job not found''), snd (router_delete ?s ''t1'' ''u1''))"
    by blast
  then have e: "router_delete [(''t2'', ?job2)] ''t1'' ''u1'' =
          (Inl (ApiError 404 ''Tracked job not found''), [(''t2'', ?job2)])"
    unfolding r .
  show ?thesis by (intro conjI a b c [unfolded d] k e)
qed

end
